theory Spec2Isabelle
  imports Complex_Main
begin

section \<open>Python values, exceptions and results\<close>

text \<open>
  The exceptions the modelled code can raise: an out-of-range list index, a missing
  dictionary key, an attribute read before it was assigned, and a division by zero.
\<close>

datatype error = IndexError | KeyError | AttributeError | ZeroDivisionError

text \<open>
  A handler either returns normally with the new state, or raises with the state as it
  was at the moment of the raise (assignments made before a raise persist in Python).
\<close>

datatype 'w result = Ok 'w | Raise error 'w

text \<open>\<^verbatim>\<open>xs[i]\<close> on a Python list: a negative index counts from the end.\<close>

definition list_index :: "'a list \<Rightarrow> int \<Rightarrow> int" where
  "list_index xs i = (if i < 0 then int (length xs) + i else i)"

definition list_getitem :: "'a list \<Rightarrow> int \<Rightarrow> error + 'a" where
  "list_getitem xs i =
     (let j = list_index xs i
      in if 0 \<le> j \<and> j < int (length xs) then Inr (xs ! nat j) else Inl IndexError)"

text \<open>\<^verbatim>\<open>xs.pop()\<close>: removes and returns the last element.\<close>

definition list_pop :: "'a list \<Rightarrow> error + ('a \<times> 'a list)" where
  "list_pop xs = (if xs = [] then Inl IndexError else Inr (last xs, butlast xs))"

section \<open>Configuration (module Const)\<close>

text \<open>
  The module \<^verbatim>\<open>Const\<close> is not among the sources; the code only reads its constants.
  They are a parameter of every operation. State tokens are opaque comparable values,
  taken to be integers; numeric quantities are exact reals.
\<close>

type_synonym state = int

record Vector2 =
  vx :: real
  vy :: real

record Const =
  FPS :: real
  GAME_LENGTH :: int
  PLAYER_INIT_POSITION :: "Vector2 list"
  PLAYER_RADIUS :: real
  SPEED_ATTACK :: real
  SPEED_DEFENSE :: real
  DIRECTION_TO_VEC2 :: "string \<rightharpoonup> Vector2"
  ARENA_SIZE :: "real \<times> real"
  STATE_POP :: state
  STATE_MENU :: state
  STATE_PLAY :: state
  STATE_STOP :: state
  STATE_ENDGAME :: state

section \<open>EventManager.py\<close>

datatype event =
    BaseEvent
  | EventInitialize
  | EventQuit
  | EventPause
  | EventContinue
  | EventStateChange state
  | EventEveryTick
  | EventTimesUp
  | EventChangePosition
  | EventPlayerMove int string

record 'l EventManager =
  listeners :: "'l list"

definition EventManager_init :: "'l EventManager" where
  "EventManager_init = \<lparr>listeners = []\<rparr>"

definition register_listener :: "'l EventManager \<Rightarrow> 'l \<Rightarrow> 'l EventManager" where
  "register_listener em l = em\<lparr>listeners := listeners em @ [l]\<rparr>"

definition unregister_listener :: "'l EventManager \<Rightarrow> 'l \<Rightarrow> 'l EventManager" where
  "unregister_listener em l = em"

text \<open>
  The loop of \<^verbatim>\<open>post\<close>: each listener's \<^verbatim>\<open>notify\<close> in list order; an exception
  leaves the loop. The capability \<^verbatim>\<open>notify\<close> is the parameter \<open>nf\<close>, a transformer of
  the program state \<open>'w\<close>. No handler of this repository registers a listener, so the
  list is the one found when the loop starts.
\<close>

fun deliver :: "('l \<Rightarrow> 'e \<Rightarrow> 'w \<Rightarrow> 'w result) \<Rightarrow> 'l list \<Rightarrow> 'e \<Rightarrow> 'w \<Rightarrow> 'w result" where
  "deliver nf [] e w = Ok w"
| "deliver nf (l # ls) e w =
     (case nf l e w of
        Raise x w' \<Rightarrow> Raise x w'
      | Ok w' \<Rightarrow> deliver nf ls e w')"

definition post ::
  "('l \<Rightarrow> 'e \<Rightarrow> 'w \<Rightarrow> 'w result) \<Rightarrow> 'l EventManager \<Rightarrow> 'e \<Rightarrow> 'w \<Rightarrow> 'w result" where
  "post nf em e w = deliver nf (listeners em) e w"


section \<open>Model.py: StateMachine\<close>

record StateMachine =
  statestack :: "state list"

definition StateMachine_init :: StateMachine where
  "StateMachine_init = \<lparr>statestack = []\<rparr>"

text \<open>
  \<^verbatim>\<open>peek\<close> and \<^verbatim>\<open>pop\<close> run the list operation inside \<^verbatim>\<open>try\<close> and catch
  \<^verbatim>\<open>IndexError\<close> only; Python's \<^verbatim>\<open>None\<close> is \<open>None\<close>, a token \<open>s\<close> is \<open>Some s\<close>.
\<close>

definition peek :: "StateMachine \<Rightarrow> error + (state option \<times> StateMachine)" where
  "peek sm =
     (case list_getitem (statestack sm) (- 1) of
        Inr v \<Rightarrow> Inr (Some v, sm)
      | Inl x \<Rightarrow> if x = IndexError then Inr (None, sm) else Inl x)"

definition pop :: "StateMachine \<Rightarrow> error + (state option \<times> StateMachine)" where
  "pop sm =
     (case list_pop (statestack sm) of
        Inr (v, rest) \<Rightarrow> Inr (Some v, sm\<lparr>statestack := rest\<rparr>)
      | Inl x \<Rightarrow> if x = IndexError then Inr (None, sm) else Inl x)"

definition push :: "state \<Rightarrow> StateMachine \<Rightarrow> state \<times> StateMachine" where
  "push s sm = (s, sm\<lparr>statestack := statestack sm @ [s]\<rparr>)"

definition clear :: "StateMachine \<Rightarrow> StateMachine" where
  "clear sm = sm\<lparr>statestack := []\<rparr>"

section \<open>Model.py: Player\<close>

record Player =
  player_id :: int
  position :: Vector2
  speed :: real

definition Player_init :: "Const \<Rightarrow> int \<Rightarrow> error + Player" where
  "Player_init c pid =
     (case list_getitem (PLAYER_INIT_POSITION c) pid of
        Inl x \<Rightarrow> Inl x
      | Inr p \<Rightarrow>
          Inr \<lparr>player_id = pid, position = p,
               speed = (if pid = 1 then SPEED_ATTACK c else SPEED_DEFENSE c)\<rparr>)"

text \<open>
  \<^verbatim>\<open>move_direction\<close>: the quotient \<^verbatim>\<open>speed / FPS\<close> is evaluated before the
  direction is looked up; both coordinates are then clipped.
\<close>

definition move_direction :: "Const \<Rightarrow> string \<Rightarrow> Player \<Rightarrow> error + Player" where
  "move_direction c direction p =
     (if FPS c = 0 then Inl ZeroDivisionError
      else case DIRECTION_TO_VEC2 c direction of
        None \<Rightarrow> Inl KeyError
      | Some v \<Rightarrow>
          let k = speed p / FPS c;
              px = vx (position p) + k * vx v;
              py = vy (position p) + k * vy v
          in Inr (p\<lparr>position :=
                \<lparr>vx = max 0 (min (fst (ARENA_SIZE c)) px),
                 vy = max 0 (min (snd (ARENA_SIZE c)) py)\<rparr>\<rparr>))"

text \<open>A sequence of \<^verbatim>\<open>move_direction\<close> calls on one player; the first raise ends it.\<close>

fun moves :: "Const \<Rightarrow> string list \<Rightarrow> Player \<Rightarrow> error + Player" where
  "moves c [] p = Inr p"
| "moves c (d # ds) p =
     (case move_direction c d p of Inl x \<Rightarrow> Inl x | Inr p' \<Rightarrow> moves c ds p')"

definition in_arena :: "Const \<Rightarrow> Player \<Rightarrow> bool" where
  "in_arena c p \<longleftrightarrow>
     0 \<le> vx (position p) \<and> vx (position p) \<le> fst (ARENA_SIZE c) \<and>
     0 \<le> vy (position p) \<and> vy (position p) \<le> snd (ARENA_SIZE c)"

section \<open>Model.py: GameEngine\<close>

text \<open>
  The listeners of the bus: the game engine, and passive listeners (the view and the
  controller are outside the modelled sources; a probe stands for one whose
  \<^verbatim>\<open>notify\<close> neither raises nor posts).
\<close>

datatype listener = Engine | Probe nat

text \<open>
  The engine's attributes. \<^verbatim>\<open>roll\<close> and \<^verbatim>\<open>players\<close> exist after
  \<^verbatim>\<open>initialize\<close>, \<^verbatim>\<open>timer\<close> and \<^verbatim>\<open>running\<close> after \<^verbatim>\<open>run\<close> assigned them: an
  unassigned attribute is \<open>None\<close>, and reading it raises \<^verbatim>\<open>AttributeError\<close>.
  \<open>posted\<close> is a history variable: the events passed to \<^verbatim>\<open>ev_manager.post\<close>, in call
  order; no operation reads it. The clock handle is not modelled.
\<close>

record GameEngine =
  ev_manager :: "listener EventManager"
  state_machine :: StateMachine
  roll :: "int list option"
  players :: "Player list option"
  timer :: "int option"
  running :: "bool option"
  posted :: "event list"

definition GameEngine_init :: "listener EventManager \<Rightarrow> GameEngine" where
  "GameEngine_init em =
     \<lparr>ev_manager = register_listener em Engine, state_machine = StateMachine_init,
      roll = None, players = None, timer = None, running = None, posted = []\<rparr>"

text \<open>
  \<^verbatim>\<open>initialize\<close>: \<^verbatim>\<open>roll\<close> has just been assigned \<^verbatim>\<open>[0, 1]\<close>, so the two players are
  built from the ids 0 and 1.
\<close>

definition initialize :: "Const \<Rightarrow> GameEngine \<Rightarrow> GameEngine result" where
  "initialize c w =
     (let w1 = w\<lparr>state_machine := snd (push (STATE_MENU c) (state_machine w)),
                 roll := Some [0, 1]\<rparr>
      in case Player_init c 0 of
           Inl x \<Rightarrow> Raise x w1
         | Inr p0 \<Rightarrow>
             (case Player_init c 1 of
                Inl x \<Rightarrow> Raise x w1
              | Inr p1 \<Rightarrow> Ok (w1\<lparr>players := Some [p0, p1]\<rparr>)))"

text \<open>
  \<^verbatim>\<open>change_position\<close>: the right-hand side \<^verbatim>\<open>roll[1], roll[0]\<close> is read first, then both
  entries are assigned; the players are rebuilt from the new entries, then the timer is
  reset.
\<close>

definition change_position :: "Const \<Rightarrow> GameEngine \<Rightarrow> GameEngine result" where
  "change_position c w =
     (case roll w of
        None \<Rightarrow> Raise AttributeError w
      | Some r \<Rightarrow>
          (case list_getitem r 1 of
             Inl x \<Rightarrow> Raise x w
           | Inr a \<Rightarrow>
               (case list_getitem r 0 of
                  Inl x \<Rightarrow> Raise x w
                | Inr b \<Rightarrow>
                    (let w1 = w\<lparr>roll := Some (list_update (list_update r 0 a) 1 b)\<rparr>
                     in (case Player_init c a of
                           Inl x \<Rightarrow> Raise x w1
                         | Inr p0 \<Rightarrow>
                             (case Player_init c b of
                                Inl x \<Rightarrow> Raise x w1
                              | Inr p1 \<Rightarrow>
                                  Ok (w1\<lparr>players := Some [p0, p1],
                                         timer := Some (GAME_LENGTH c)\<rparr>)))))))"

definition distance :: "Player \<Rightarrow> Player \<Rightarrow> real" where
  "distance player1 player2 =
     sqrt ((vx (position player1) - vx (position player2))\<^sup>2 +
           (vy (position player1) - vy (position player2))\<^sup>2)"

definition update_menu :: "GameEngine \<Rightarrow> GameEngine" where
  "update_menu w = w"

definition update_objects :: "GameEngine \<Rightarrow> GameEngine" where
  "update_objects w = w"

definition update_endgame :: "GameEngine \<Rightarrow> GameEngine" where
  "update_endgame w = w"

text \<open>Congruence rules: the calls made through the loop of \<^verbatim>\<open>post\<close> are to listeners of the list.\<close>

lemma deliver_cong [fundef_cong]:
  "ls = ls' \<Longrightarrow> e = e' \<Longrightarrow> w = w' \<Longrightarrow> (\<And>l v. l \<in> set ls' \<Longrightarrow> nf l e' v = nf' l e' v)
   \<Longrightarrow> deliver nf ls e w = deliver nf' ls' e' w'"
proof (induction ls' arbitrary: ls w w')
  case Nil
  then show ?case by simp
next
  case (Cons a ls')
  then show ?case by (auto split: result.splits)
qed

lemma post_cong [fundef_cong]:
  "em = em' \<Longrightarrow> e = e' \<Longrightarrow> w = w' \<Longrightarrow>
   (\<And>l v. l \<in> set (listeners em') \<Longrightarrow> nf l e' v = nf' l e' v)
   \<Longrightarrow> post nf em e w = post nf' em' e' w'"
  unfolding post_def by (rule deliver_cong) auto

text \<open>Events whose handler posts a further event are one level above the events it posts.\<close>

fun event_level :: "event \<Rightarrow> nat" where
  "event_level EventEveryTick = 1"
| "event_level (EventStateChange s) = 1"
| "event_level (EventPlayerMove pid d) = 1"
| "event_level e = 0"

text \<open>
  \<^verbatim>\<open>GameEngine.notify\<close> with the two operations it reaches the bus through:
  \<open>ev_post\<close> is \<^verbatim>\<open>self.ev_manager.post(e)\<close> (recording \<open>e\<close> in the history), a
  synchronous broadcast that re-enters \<open>notify\<close>; \<open>check_collision\<close> posts
  \<^verbatim>\<open>EventQuit\<close>. In \<^verbatim>\<open>EventPlayerMove\<close> the player is looked up before it is moved;
  the moved player is the same object the list holds.
\<close>

function notify :: "Const \<Rightarrow> listener \<Rightarrow> event \<Rightarrow> GameEngine \<Rightarrow> GameEngine result"
  and check_collision :: "Const \<Rightarrow> GameEngine \<Rightarrow> GameEngine result"
  and ev_post :: "Const \<Rightarrow> event \<Rightarrow> GameEngine \<Rightarrow> GameEngine result" where
  "ev_post c e w = post (notify c) (ev_manager w) e (w\<lparr>posted := posted w @ [e]\<rparr>)"
| "check_collision c w =
     (case players w of
        None \<Rightarrow> Raise AttributeError w
      | Some ps \<Rightarrow>
          (case list_getitem ps 0 of
             Inl x \<Rightarrow> Raise x w
           | Inr p0 \<Rightarrow>
               (case list_getitem ps 1 of
                  Inl x \<Rightarrow> Raise x w
                | Inr p1 \<Rightarrow>
                    if distance p0 p1 < 2 * PLAYER_RADIUS c
                    then ev_post c EventQuit w
                    else Ok w)))"
| "notify c (Probe n) e w = Ok w"
| "notify c Engine BaseEvent w = Ok w"
| "notify c Engine EventInitialize w = initialize c w"
| "notify c Engine EventEveryTick w =
     (case peek (state_machine w) of
        Inl x \<Rightarrow> Raise x w
      | Inr (cur_state, sm) \<Rightarrow>
          (let w0 = w\<lparr>state_machine := sm\<rparr>
           in if cur_state = Some (STATE_MENU c) then Ok (update_menu w0)
              else if cur_state = Some (STATE_PLAY c) then
                (case timer (update_objects w0) of
                   None \<Rightarrow> Raise AttributeError (update_objects w0)
                 | Some t \<Rightarrow>
                     (let w1 = (update_objects w0)\<lparr>timer := Some (t - 1)\<rparr>
                      in if t - 1 = 0 then ev_post c EventChangePosition w1 else Ok w1))
              else if cur_state = Some (STATE_PLAY c) then Ok w0
              else if cur_state = Some (STATE_ENDGAME c) then Ok (update_endgame w0)
              else Ok w0))"
| "notify c Engine (EventStateChange s) w =
     (if s = STATE_POP c then
        (case pop (state_machine w) of
           Inl x \<Rightarrow> Raise x w
         | Inr (r, sm) \<Rightarrow>
             if r = None then ev_post c EventQuit (w\<lparr>state_machine := sm\<rparr>)
             else Ok (w\<lparr>state_machine := sm\<rparr>))
      else Ok (w\<lparr>state_machine := snd (push s (state_machine w))\<rparr>))"
| "notify c Engine EventQuit w = Ok (w\<lparr>running := Some False\<rparr>)"
| "notify c Engine (EventPlayerMove pid direction) w =
     (case players w of
        None \<Rightarrow> Raise AttributeError w
      | Some ps \<Rightarrow>
          (case list_getitem ps pid of
             Inl x \<Rightarrow> Raise x w
           | Inr p \<Rightarrow>
               (case move_direction c direction p of
                  Inl x \<Rightarrow> Raise x w
                | Inr p' \<Rightarrow>
                    check_collision c
                      (w\<lparr>players := Some (ps[nat (list_index ps pid) := p'])\<rparr>))))"
| "notify c Engine EventTimesUp w =
     Ok (w\<lparr>state_machine := snd (push (STATE_ENDGAME c) (state_machine w))\<rparr>)"
| "notify c Engine EventPause w =
     Ok (w\<lparr>state_machine := snd (push (STATE_STOP c) (state_machine w))\<rparr>)"
| "notify c Engine EventContinue w =
     (case pop (state_machine w) of
        Inl x \<Rightarrow> Raise x w
      | Inr (r, sm) \<Rightarrow> Ok (w\<lparr>state_machine := sm\<rparr>))"
| "notify c Engine EventChangePosition w = change_position c w"
  by pat_completeness auto
termination
  by (relation "measure (\<lambda>s. case s of
         Inl (c, l, e, w) \<Rightarrow> 3 * event_level e
       | Inr (Inl (c, w)) \<Rightarrow> 2
       | Inr (Inr (c, e, w)) \<Rightarrow> 3 * event_level e + 1)") auto

text \<open>
  The body of the main loop of \<^verbatim>\<open>run\<close>, \<open>n\<close> times: \<^verbatim>\<open>EventEveryTick\<close> is posted on the
  bus; a raise ends the sequence.
\<close>

fun ticks :: "Const \<Rightarrow> nat \<Rightarrow> GameEngine \<Rightarrow> GameEngine result" where
  "ticks c 0 w = Ok w"
| "ticks c (Suc n) w =
     (case ev_post c EventEveryTick w of
        Raise x w' \<Rightarrow> Raise x w'
      | Ok w' \<Rightarrow> ticks c n w')"

text \<open>\<open>n\<close> successive calls of \<^verbatim>\<open>pop\<close>, the returned values dropped.\<close>

fun pops :: "nat \<Rightarrow> StateMachine \<Rightarrow> error + StateMachine" where
  "pops 0 sm = Inr sm"
| "pops (Suc n) sm = (case pop sm of Inl x \<Rightarrow> Inl x | Inr (r, sm') \<Rightarrow> pops n sm')"

section \<open>A concrete configuration and engine states\<close>

text \<open>
  Values for the constants, used where a statement is evaluated on a concrete input:
  two players 400 apart in an 800 by 800 arena, radius 75, four directions.
\<close>

definition sample_const :: Const where
  "sample_const =
     \<lparr>FPS = 60, GAME_LENGTH = 1800,
      PLAYER_INIT_POSITION = [\<lparr>vx = 200, vy = 400\<rparr>, \<lparr>vx = 600, vy = 400\<rparr>],
      PLAYER_RADIUS = 75, SPEED_ATTACK = 120, SPEED_DEFENSE = 60,
      DIRECTION_TO_VEC2 =
        map_of [(''up'', \<lparr>vx = 0, vy = - 1\<rparr>), (''down'', \<lparr>vx = 0, vy = 1\<rparr>),
                (''left'', \<lparr>vx = - 1, vy = 0\<rparr>), (''right'', \<lparr>vx = 1, vy = 0\<rparr>)],
      ARENA_SIZE = (800, 800),
      STATE_POP = 0, STATE_MENU = 1, STATE_PLAY = 2, STATE_STOP = 3, STATE_ENDGAME = 4\<rparr>"

definition sample_player0 :: Player where
  "sample_player0 = \<lparr>player_id = 0, position = \<lparr>vx = 200, vy = 400\<rparr>, speed = 60\<rparr>"

definition sample_player1 :: Player where
  "sample_player1 = \<lparr>player_id = 1, position = \<lparr>vx = 600, vy = 400\<rparr>, speed = 120\<rparr>"

text \<open>
  The engine after construction on a fresh bus, registration of one further listener,
  \<^verbatim>\<open>EventInitialize\<close> and the assignments of \<^verbatim>\<open>run\<close>: the stack holds the menu state.
\<close>

definition sample_engine :: GameEngine where
  "sample_engine =
     \<lparr>ev_manager = \<lparr>listeners = [Engine, Probe 0]\<rparr>,
      state_machine = \<lparr>statestack = [1]\<rparr>,
      roll = Some [0, 1],
      players = Some [sample_player0, sample_player1],
      timer = Some 1800, running = Some True, posted = []\<rparr>"

text \<open>The same engine two ticks before the end of a round, in the play state.\<close>

definition sample_playing :: GameEngine where
  "sample_playing = sample_engine\<lparr>state_machine := \<lparr>statestack = [1, 2]\<rparr>, timer := Some 2\<rparr>"


section \<open>Properties of the list operations and the state machine\<close>

lemma peek_eq:
  "peek sm = Inr (if statestack sm = [] then None else Some (last (statestack sm)), sm)"
  by (cases "statestack sm" rule: rev_cases)
     (simp_all add: peek_def list_getitem_def list_index_def)

lemma pop_eq:
  "pop sm = Inr (if statestack sm = [] then None else Some (last (statestack sm)),
                 sm\<lparr>statestack := butlast (statestack sm)\<rparr>)"
  by (simp add: pop_def list_pop_def)

lemma pops_eq:
  "pops n sm = Inr (sm\<lparr>statestack := take (length (statestack sm) - n) (statestack sm)\<rparr>)"
proof (induction n arbitrary: sm)
  case 0
  then show ?case by simp
next
  case (Suc n)
  then show ?case by (simp add: pop_eq butlast_conv_take)
qed

text \<open>
  C7. For every stack and every token \<open>s\<close>: \<^verbatim>\<open>push(s)\<close> returns \<open>s\<close>; a \<^verbatim>\<open>pop()\<close>
  after it returns \<open>s\<close> and leaves the state machine as it was before the push;
  \<^verbatim>\<open>peek()\<close> returns the top element (the empty result on an empty stack) and leaves
  the state machine unchanged.
\<close>

theorem stack_round_trip:
  "fst (push s sm) = s \<and>
   pop (snd (push s sm)) = Inr (Some s, sm) \<and>
   peek (snd (push s sm)) = Inr (Some s, snd (push s sm)) \<and>
   peek sm = Inr (if statestack sm = [] then None else Some (last (statestack sm)), sm)"
  by (simp add: peek_eq pop_eq push_def)

text \<open>
  C8. On an empty stack (freshly constructed, after \<^verbatim>\<open>clear()\<close>, or after as many pops
  as the stack had elements) \<^verbatim>\<open>pop()\<close> and \<^verbatim>\<open>peek()\<close> return the empty result, which
  differs from every token; \<^verbatim>\<open>pop\<close> and \<^verbatim>\<open>peek\<close> never raise on any stack
  (\<^verbatim>\<open>push\<close> and \<^verbatim>\<open>clear\<close> have no raising operation at all).
\<close>

theorem empty_stack_sentinel:
  "pop StateMachine_init = Inr (None, StateMachine_init) \<and>
   peek StateMachine_init = Inr (None, StateMachine_init) \<and>
   pop (clear sm) = Inr (None, clear sm) \<and>
   peek (clear sm) = Inr (None, clear sm) \<and>
   pops (length (statestack sm)) sm = Inr (clear sm) \<and>
   (\<forall>s::state. None \<noteq> Some s) \<and>
   (\<exists>r. pop sm = Inr r) \<and> (\<exists>r. peek sm = Inr r) \<and>
   (\<exists>r. push s sm = (s, r)) \<and> statestack (clear sm) = []"
  by (simp add: peek_eq pop_eq pops_eq clear_def StateMachine_init_def push_def)

section \<open>Properties of the event bus\<close>



lemma deliver_Quit:
  "deliver (notify c) ls EventQuit w =
     Ok (if Engine \<in> set ls then w\<lparr>running := Some False\<rparr> else w)"
proof (induction ls arbitrary: w)
  case Nil
  then show ?case by simp
next
  case (Cons l ls)
  then show ?case by (cases l) simp_all
qed

lemma deliver_no_engine:
  "Engine \<notin> set ls \<Longrightarrow> deliver (notify c) ls e w = Ok w"
proof (induction ls)
  case Nil
  then show ?case by simp
next
  case (Cons l ls)
  then show ?case by (cases l) simp_all
qed

lemma deliver_engine_once:
  "count_list ls Engine = 1 \<Longrightarrow> deliver (notify c) ls e w = notify c Engine e w"
proof (induction ls)
  case Nil
  then show ?case by simp
next
  case (Cons l ls)
  show ?case
  proof (cases l)
    case Engine
    with Cons.prems have "Engine \<notin> set ls"
      by (simp add: count_list_0_iff)
    then show ?thesis using Engine
      by (simp add: deliver_no_engine split: result.splits)
  next
    case (Probe n)
    with Cons show ?thesis by simp
  qed
qed

lemma deliver_engine_raises:
  "Engine \<in> set ls \<Longrightarrow> notify c Engine e w = Raise x w' \<Longrightarrow>
   deliver (notify c) ls e w = Raise x w'"
proof (induction ls)
  case Nil
  then show ?case by simp
next
  case (Cons l ls)
  then show ?case by (cases l) auto
qed

lemma ev_post_Quit:
  "ev_post c EventQuit w =
     Ok (if Engine \<in> set (listeners (ev_manager w))
         then w\<lparr>running := Some False, posted := posted w @ [EventQuit]\<rparr>
         else w\<lparr>posted := posted w @ [EventQuit]\<rparr>)"
  by (simp add: post_def deliver_Quit)

lemma sample_engine_reached:
  "notify sample_const Engine EventInitialize
     ((GameEngine_init EventManager_init)
        \<lparr>ev_manager := register_listener (ev_manager (GameEngine_init EventManager_init)) (Probe 0),
         running := Some True\<rparr>) =
   Ok (sample_engine\<lparr>timer := None\<rparr>)"
  by (simp add: sample_engine_def sample_const_def sample_player0_def sample_player1_def
      GameEngine_init_def EventManager_init_def register_listener_def initialize_def
      Player_init_def list_getitem_def list_index_def push_def StateMachine_init_def)




section \<open>Properties of the players\<close>

lemma move_direction_in_arena:
  assumes "0 \<le> fst (ARENA_SIZE c)" "0 \<le> snd (ARENA_SIZE c)"
    and "move_direction c d p = Inr p'"
  shows "in_arena c p'"
  using assms
  by (auto simp: move_direction_def in_arena_def Let_def split: if_splits option.splits)

lemma move_direction_succeeds:
  "FPS c \<noteq> 0 \<Longrightarrow> d \<in> dom (DIRECTION_TO_VEC2 c) \<Longrightarrow> \<exists>p'. move_direction c d p = Inr p'"
  by (auto simp: move_direction_def Let_def)

lemma moves_snoc:
  "moves c (ds @ [d]) p =
     (case moves c ds p of Inl x \<Rightarrow> Inl x | Inr q \<Rightarrow> move_direction c d q)"
  by (induction ds arbitrary: p) (auto split: sum.splits)

lemma moves_in_arena:
  assumes "FPS c \<noteq> 0" "0 \<le> fst (ARENA_SIZE c)" "0 \<le> snd (ARENA_SIZE c)"
    and "set ds \<subseteq> dom (DIRECTION_TO_VEC2 c)"
  shows "\<exists>p'. moves c ds p = Inr p' \<and> (ds \<noteq> [] \<longrightarrow> in_arena c p')"
  using assms(4)
proof (induction ds rule: rev_induct)
  case Nil
  then show ?case by simp
next
  case (snoc d ds)
  then obtain q where q: "moves c ds p = Inr q" by auto
  from snoc.prems have "d \<in> dom (DIRECTION_TO_VEC2 c)" by simp
  with assms(1) obtain p' where p': "move_direction c d q = Inr p'"
    using move_direction_succeeds by blast
  with assms(2,3) have "in_arena c p'" by (rule move_direction_in_arena)
  with q p' show ?case by (simp add: moves_snoc)
qed

text \<open>
  C3. With a frame rate other than zero and an arena of non-negative width and height,
  for every starting position and every sequence \<open>ds\<close> of directions of the direction
  table: after each of the calls (the first \<open>n\<close> of them, for every \<open>n\<close> from 1 to the
  length of \<open>ds\<close>) the call has returned and the position has \<open>0 \<le> x \<le> ARENA_W\<close> and
  \<open>0 \<le> y \<le> ARENA_H\<close>.
\<close>

theorem clamping:
  assumes "FPS c \<noteq> 0" "0 \<le> fst (ARENA_SIZE c)" "0 \<le> snd (ARENA_SIZE c)"
    and "set ds \<subseteq> dom (DIRECTION_TO_VEC2 c)"
    and "0 < n" "n \<le> length ds"
  shows "\<exists>p'. moves c (take n ds) p = Inr p' \<and> in_arena c p'"
proof -
  have "set (take n ds) \<subseteq> dom (DIRECTION_TO_VEC2 c)"
    using assms(4) set_take_subset by fastforce
  moreover have "take n ds \<noteq> []" using assms(5,6) by auto
  ultimately show ?thesis
    using moves_in_arena [OF assms(1-3), of "take n ds" p] by auto
qed

theorem clamping_witness:
  "FPS sample_const \<noteq> 0 \<and> 0 \<le> fst (ARENA_SIZE sample_const) \<and>
   0 \<le> snd (ARENA_SIZE sample_const) \<and>
   set [''left'', ''up'', ''up''] \<subseteq> dom (DIRECTION_TO_VEC2 sample_const) \<and>
   (0::nat) < 2 \<and> (2::nat) \<le> length [''left'', ''up'', ''up''] \<and>
   (\<exists>p'. moves sample_const (take 2 [''left'', ''up'', ''up''])
           \<lparr>player_id = 0, position = \<lparr>vx = 1 / 2, vy = 900\<rparr>, speed = 60\<rparr> = Inr p' \<and>
         in_arena sample_const p')"
proof -
  have h: "FPS sample_const \<noteq> 0" "0 \<le> fst (ARENA_SIZE sample_const)"
    "0 \<le> snd (ARENA_SIZE sample_const)"
    "set [''left'', ''up'', ''up''] \<subseteq> dom (DIRECTION_TO_VEC2 sample_const)"
    "(0::nat) < 2" "(2::nat) \<le> length [''left'', ''up'', ''up'']"
    by (simp_all add: sample_const_def)
  from clamping [OF h, of "\<lparr>player_id = 0, position = \<lparr>vx = 1 / 2, vy = 900\<rparr>, speed = 60\<rparr>"] h
  show ?thesis by blast
qed

section \<open>Properties of the game engine\<close>

text \<open>
  C6. \<^verbatim>\<open>EventContinue\<close> pops without any check: a stack with a top element loses it, an
  empty stack stays empty; in both cases the handler returns normally and nothing else
  of the engine changes, so no event is posted.
\<close>

theorem continue_pops:
  "notify c Engine EventContinue (w\<lparr>state_machine := \<lparr>statestack = ss @ [s]\<rparr>\<rparr>) =
     Ok (w\<lparr>state_machine := \<lparr>statestack = ss\<rparr>\<rparr>) \<and>
   notify c Engine EventContinue (w\<lparr>state_machine := \<lparr>statestack = []\<rparr>\<rparr>) =
     Ok (w\<lparr>state_machine := \<lparr>statestack = []\<rparr>\<rparr>)"
  by (simp add: pop_eq)

lemma getitem_pair:
  "pid \<in> {- 2, - 1, 0, 1} \<Longrightarrow>
   list_getitem [p0, p1] pid = Inr ([p0, p1] ! nat (pid mod 2)) \<and>
   nat (list_index [p0, p1] pid) = nat (pid mod 2)"
  by (auto simp: list_getitem_def list_index_def)

lemma getitem_pair_out:
  "pid \<notin> {- 2, - 1, 0, 1} \<Longrightarrow> list_getitem [p0, p1] pid = Inl IndexError"
  by (auto simp: list_getitem_def list_index_def Let_def)

lemma pair_update:
  "pid \<in> {- 2, - 1, 0, 1} \<Longrightarrow>
   [p0, p1][nat (pid mod 2) := p'] =
     [([p0, p1][nat (pid mod 2) := p']) ! 0, ([p0, p1][nat (pid mod 2) := p']) ! 1]"
  by auto

lemma check_collision_pair:
  "players w = Some [p0, p1] \<Longrightarrow>
   check_collision c w =
     (if distance p0 p1 < 2 * PLAYER_RADIUS c then ev_post c EventQuit w else Ok w)"
  by (simp add: list_getitem_def list_index_def del: ev_post.simps)


lemma change_position_ok:
  assumes "roll w = Some [r0, r1]"
    and "Player_init c r1 = Inr q0" "Player_init c r0 = Inr q1"
  shows "change_position c w =
     Ok (w\<lparr>roll := Some [r1, r0], players := Some [q0, q1], timer := Some (GAME_LENGTH c)\<rparr>)"
  using assms by (simp add: change_position_def list_getitem_def list_index_def)

lemma Player_init_ok:
  assumes "2 \<le> length (PLAYER_INIT_POSITION c)" "i = 0 \<or> i = 1"
  shows "\<exists>q. Player_init c i = Inr q \<and> player_id q = i"
  using assms by (auto simp: Player_init_def list_getitem_def list_index_def)

text \<open>
  C1 (as amended). When \<^verbatim>\<open>StateChange(POP)\<close> is processed on an empty stack, the pop
  returns the empty result and \<^verbatim>\<open>EventQuit\<close> is posted; when the stack holds exactly one
  element, the element is popped, the stack is left empty, and nothing is posted.
\<close>

theorem state_change_pop:
  "(statestack (state_machine w) = [] \<longrightarrow>
      (\<exists>w'. notify c Engine (EventStateChange (STATE_POP c)) w = Ok w' \<and>
            posted w' = posted w @ [EventQuit] \<and> statestack (state_machine w') = [])) \<and>
   (statestack (state_machine w) = [s] \<longrightarrow>
      notify c Engine (EventStateChange (STATE_POP c)) w =
        Ok (w\<lparr>state_machine := (state_machine w)\<lparr>statestack := []\<rparr>\<rparr>))"
  by (simp add: pop_eq ev_post_Quit del: ev_post.simps)

theorem state_change_pop_witness:
  "statestack (state_machine (sample_engine\<lparr>state_machine := StateMachine_init\<rparr>)) = [] \<and>
   (\<exists>w'. notify sample_const Engine (EventStateChange (STATE_POP sample_const))
            (sample_engine\<lparr>state_machine := StateMachine_init\<rparr>) = Ok w' \<and>
         posted w' = [EventQuit] \<and> statestack (state_machine w') = []) \<and>
   statestack (state_machine sample_engine) = [1] \<and>
   notify sample_const Engine (EventStateChange (STATE_POP sample_const)) sample_engine =
     Ok (sample_engine\<lparr>state_machine := StateMachine_init\<rparr>)"
  using state_change_pop [where w = "sample_engine\<lparr>state_machine := StateMachine_init\<rparr>"
      and c = sample_const]
    state_change_pop [where w = sample_engine and c = sample_const and s = 1]
  by (simp add: sample_engine_def StateMachine_init_def)

text \<open>
  A stack of exactly one element does not lead to a quit: on the initialised engine,
  whose stack holds the menu state only, \<^verbatim>\<open>StateChange(POP)\<close> empties the stack and the history of posted events stays
  empty.
\<close>

theorem state_change_pop_counterexample:
  "statestack (state_machine sample_engine) = [STATE_MENU sample_const] \<and>
   notify sample_const Engine (EventStateChange (STATE_POP sample_const)) sample_engine =
     Ok (sample_engine\<lparr>state_machine := \<lparr>statestack = []\<rparr>\<rparr>) \<and>
   posted (sample_engine\<lparr>state_machine := \<lparr>statestack = []\<rparr>\<rparr>) = []"
  by (simp add: sample_engine_def sample_const_def pop_eq)

text \<open>
  C9. On an engine whose \<^verbatim>\<open>roll\<close> is a permutation of 0 and 1 (as \<^verbatim>\<open>initialize\<close>
  leaves it), with an initial position configured for both ids: \<^verbatim>\<open>change_position\<close>
  returns, reverses \<^verbatim>\<open>roll\<close>, which is again a permutation of 0 and 1, rebuilds the two
  players with \<^verbatim>\<open>players[i].player_id = roll[i]\<close>, and a second application restores
  \<^verbatim>\<open>roll\<close>.
\<close>

theorem change_position_involution:
  assumes "roll w = Some r" "r = [0, 1] \<or> r = [1, 0]"
    and "2 \<le> length (PLAYER_INIT_POSITION c)"
  shows "\<exists>w1 w2 q0 q1.
           change_position c w = Ok w1 \<and> roll w1 = Some (rev r) \<and>
           (rev r = [0, 1] \<or> rev r = [1, 0]) \<and>
           players w1 = Some [q0, q1] \<and>
           player_id q0 = rev r ! 0 \<and> player_id q1 = rev r ! 1 \<and>
           change_position c w1 = Ok w2 \<and> roll w2 = roll w"
proof -
  obtain q0 q1 where q: "Player_init c 0 = Inr q0" "player_id q0 = 0"
      "Player_init c 1 = Inr q1" "player_id q1 = 1"
    using Player_init_ok [OF assms(3), of 0] Player_init_ok [OF assms(3), of 1] by auto
  from assms(2) show ?thesis
  proof
    assume r: "r = [0, 1]"
    let ?w1 = "w\<lparr>roll := Some [1, 0], players := Some [q1, q0], timer := Some (GAME_LENGTH c)\<rparr>"
    have 1: "change_position c w = Ok ?w1"
      using assms(1) r q by (simp add: change_position_ok)
    have 2: "change_position c ?w1 =
        Ok (?w1\<lparr>roll := Some [0, 1], players := Some [q0, q1], timer := Some (GAME_LENGTH c)\<rparr>)"
      using q by (simp add: change_position_ok)
    show ?thesis using 1 2 q r assms(1) by simp
  next
    assume r: "r = [1, 0]"
    let ?w1 = "w\<lparr>roll := Some [0, 1], players := Some [q0, q1], timer := Some (GAME_LENGTH c)\<rparr>"
    have 1: "change_position c w = Ok ?w1"
      using assms(1) r q by (simp add: change_position_ok)
    have 2: "change_position c ?w1 =
        Ok (?w1\<lparr>roll := Some [1, 0], players := Some [q1, q0], timer := Some (GAME_LENGTH c)\<rparr>)"
      using q by (simp add: change_position_ok)
    show ?thesis using 1 2 q r assms(1) by simp
  qed
qed

theorem change_position_involution_witness:
  "roll sample_engine = Some [0, 1] \<and> 2 \<le> length (PLAYER_INIT_POSITION sample_const) \<and>
   (\<exists>w1 w2 q0 q1.
      change_position sample_const sample_engine = Ok w1 \<and> roll w1 = Some [1, 0] \<and>
      players w1 = Some [q0, q1] \<and> player_id q0 = 1 \<and> player_id q1 = 0 \<and>
      change_position sample_const w1 = Ok w2 \<and> roll w2 = Some [0, 1])"
proof -
  have h: "roll sample_engine = Some [0, 1]" "[0, 1] = [0, 1] \<or> [0, 1] = [1, 0::int]"
    "2 \<le> length (PLAYER_INIT_POSITION sample_const)"
    by (simp_all add: sample_engine_def sample_const_def)
  from change_position_involution [OF h] h show ?thesis by simp
qed


lemma player_move_checked:
  assumes "players w = Some [p0, p1]" and "pid \<in> {- 2, - 1, 0, 1}"
    and "move_direction c d ([p0, p1] ! nat (pid mod 2)) = Inr p'"
  shows "notify c Engine (EventPlayerMove pid d) w =
     (if distance (([p0, p1][nat (pid mod 2) := p']) ! 0)
                  (([p0, p1][nat (pid mod 2) := p']) ! 1) < 2 * PLAYER_RADIUS c
      then ev_post c EventQuit (w\<lparr>players := Some ([p0, p1][nat (pid mod 2) := p'])\<rparr>)
      else Ok (w\<lparr>players := Some ([p0, p1][nat (pid mod 2) := p'])\<rparr>))"
proof -
  let ?ps = "[p0, p1][nat (pid mod 2) := p']"
  let ?w1 = "w\<lparr>players := Some ?ps\<rparr>"
  have step: "notify c Engine (EventPlayerMove pid d) w = check_collision c ?w1"
    using assms getitem_pair [OF assms(2), of p0 p1] by simp
  have "players ?w1 = Some [?ps ! 0, ?ps ! 1]"
    using pair_update [OF assms(2), of p0 p1 p'] by simp
  then have "check_collision c ?w1 =
      (if distance (?ps ! 0) (?ps ! 1) < 2 * PLAYER_RADIUS c
       then ev_post c EventQuit ?w1 else Ok ?w1)"
    by (rule check_collision_pair)
  with step show ?thesis by simp
qed



text \<open>
  C10. On an engine with its two players, \<^verbatim>\<open>PlayerMove\<close> indexes the list by
  \<^verbatim>\<open>player_id\<close> without a check. For the ids -2, -1, 0 and 1 (with a frame rate other
  than zero and a direction of the table) the move returns and the player at
  \<open>player_id mod 2\<close> is the one moved, so -1 moves the second and -2 the first. For every
  other id the lookup raises \<^verbatim>\<open>IndexError\<close> with the engine unchanged, and the
  \<^verbatim>\<open>post\<close> that delivers the event to the engine raises it too.
\<close>

theorem player_lookup:
  assumes "players w = Some [p0, p1]"
  shows "(pid \<in> {- 2, - 1, 0, 1} \<and> FPS c \<noteq> 0 \<and> d \<in> dom (DIRECTION_TO_VEC2 c) \<longrightarrow>
            (\<exists>w' p'. move_direction c d ([p0, p1] ! nat (pid mod 2)) = Inr p' \<and>
               notify c Engine (EventPlayerMove pid d) w = Ok w' \<and>
               players w' = Some ([p0, p1][nat (pid mod 2) := p']))) \<and>
         (pid \<notin> {- 2, - 1, 0, 1} \<longrightarrow>
            notify c Engine (EventPlayerMove pid d) w = Raise IndexError w \<and>
            (Engine \<in> set (listeners (ev_manager w)) \<longrightarrow>
               ev_post c (EventPlayerMove pid d) w =
                 Raise IndexError (w\<lparr>posted := posted w @ [EventPlayerMove pid d]\<rparr>)))"
proof (intro conjI impI)
  assume a: "pid \<in> {- 2, - 1, 0, 1} \<and> FPS c \<noteq> 0 \<and> d \<in> dom (DIRECTION_TO_VEC2 c)"
  then obtain p' where p': "move_direction c d ([p0, p1] ! nat (pid mod 2)) = Inr p'"
    using move_direction_succeeds by blast
  from a have "pid \<in> {- 2, - 1, 0, 1}" by simp
  from player_move_checked [OF assms this p'] p'
  show "\<exists>w' p'. move_direction c d ([p0, p1] ! nat (pid mod 2)) = Inr p' \<and>
               notify c Engine (EventPlayerMove pid d) w = Ok w' \<and>
               players w' = Some ([p0, p1][nat (pid mod 2) := p'])"
    by (simp add: ev_post_Quit del: ev_post.simps notify.simps)
next
  assume out: "pid \<notin> {- 2, - 1, 0, 1}"
  show "notify c Engine (EventPlayerMove pid d) w = Raise IndexError w"
    using assms getitem_pair_out [OF out, of p0 p1] by simp
  assume reg: "Engine \<in> set (listeners (ev_manager w))"
  let ?w = "w\<lparr>posted := posted w @ [EventPlayerMove pid d]\<rparr>"
  have "notify c Engine (EventPlayerMove pid d) ?w = Raise IndexError ?w"
    using assms getitem_pair_out [OF out, of p0 p1] by simp
  with reg show "ev_post c (EventPlayerMove pid d) w = Raise IndexError ?w"
    by (simp add: post_def deliver_engine_raises)
qed


theorem player_lookup_witness:
  "players sample_engine = Some [sample_player0, sample_player1] \<and>
   (\<exists>w' p'. move_direction sample_const ''up'' sample_player1 = Inr p' \<and>
      notify sample_const Engine (EventPlayerMove (- 1) ''up'') sample_engine = Ok w' \<and>
      players w' = Some [sample_player0, p']) \<and>
   notify sample_const Engine (EventPlayerMove 2 ''up'') sample_engine =
     Raise IndexError sample_engine \<and>
   ev_post sample_const (EventPlayerMove 2 ''up'') sample_engine =
     Raise IndexError (sample_engine\<lparr>posted := [EventPlayerMove 2 ''up'']\<rparr>)"
proof -
  have ps: "players sample_engine = Some [sample_player0, sample_player1]"
    and reg: "Engine \<in> set (listeners (ev_manager sample_engine))"
    and p: "posted sample_engine = []"
    by (simp_all add: sample_engine_def)
  have ok: "(- 1::int) \<in> {- 2, - 1, 0, 1} \<and> FPS sample_const \<noteq> 0 \<and>
      ''up'' \<in> dom (DIRECTION_TO_VEC2 sample_const)"
    by (simp add: sample_const_def)
  have out: "(2::int) \<notin> {- 2, - 1, 0, 1}" by simp
  from player_lookup [OF ps, where pid = "- 1" and c = sample_const and d = "''up''"] ok
  have 1: "\<exists>w' p'. move_direction sample_const ''up'' sample_player1 = Inr p' \<and>
      notify sample_const Engine (EventPlayerMove (- 1) ''up'') sample_engine = Ok w' \<and>
      players w' = Some [sample_player0, p']"
    by (auto simp del: notify.simps)
  from player_lookup [OF ps, where pid = 2 and c = sample_const and d = "''up''"] out reg p
  have 2: "notify sample_const Engine (EventPlayerMove 2 ''up'') sample_engine =
     Raise IndexError sample_engine \<and>
   ev_post sample_const (EventPlayerMove 2 ''up'') sample_engine =
     Raise IndexError (sample_engine\<lparr>posted := [EventPlayerMove 2 ''up'']\<rparr>)"
    by (simp del: notify.simps ev_post.simps)
  from ps 1 2 show ?thesis by blast
qed

lemma tick_play:
  assumes "statestack (state_machine w) = ss @ [STATE_PLAY c]"
    and "STATE_PLAY c \<noteq> STATE_MENU c"
    and "timer w = Some t"
    and "count_list (listeners (ev_manager w)) Engine = 1"
  shows "ev_post c EventEveryTick w =
     (if t = 1
      then change_position c
             (w\<lparr>timer := Some 0, posted := posted w @ [EventEveryTick, EventChangePosition]\<rparr>)
      else Ok (w\<lparr>timer := Some (t - 1), posted := posted w @ [EventEveryTick]\<rparr>))"
  using assms
  by (simp add: post_def deliver_engine_once peek_eq update_objects_def)

lemma ticks_play:
  assumes "statestack (state_machine w) = ss @ [STATE_PLAY c]"
    and "STATE_PLAY c \<noteq> STATE_MENU c"
    and "timer w = Some (int (Suc n))"
    and "count_list (listeners (ev_manager w)) Engine = 1"
  shows "ticks c (Suc n) w =
     change_position c
       (w\<lparr>timer := Some 0,
          posted := posted w @ replicate (Suc n) EventEveryTick @ [EventChangePosition]\<rparr>)"
  using assms
proof (induction n arbitrary: w)
  case 0
  then have "ev_post c EventEveryTick w =
      change_position c
        (w\<lparr>timer := Some 0, posted := posted w @ [EventEveryTick, EventChangePosition]\<rparr>)"
    using tick_play [of w ss c 1] by simp
  then show ?case
    by (simp split: result.splits del: ev_post.simps)
next
  case (Suc n)
  let ?w1 = "w\<lparr>timer := Some (int (Suc n)), posted := posted w @ [EventEveryTick]\<rparr>"
  have "ev_post c EventEveryTick w = Ok ?w1"
    using tick_play [OF Suc.prems(1,2,3,4)] by simp
  then have "ticks c (Suc (Suc n)) w = ticks c (Suc n) ?w1"
    by (simp del: ev_post.simps ticks.simps add: ticks.simps(2) [of c "Suc n" w])
  also have "\<dots> = change_position c
       (?w1\<lparr>timer := Some 0,
          posted := posted ?w1 @ replicate (Suc n) EventEveryTick @ [EventChangePosition]\<rparr>)"
    using Suc.prems by (intro Suc.IH) simp_all
  finally show ?case by (simp add: replicate_app_Cons_same)
qed

text \<open>
  C4. On an initialised engine (registered once on the bus, \<^verbatim>\<open>roll\<close> a permutation of 0
  and 1, an initial position configured for both ids) whose timer is \<open>T > 0\<close> and whose
  top state is \<^verbatim>\<open>PLAY\<close> (a token other than \<^verbatim>\<open>MENU\<close>): \<open>T\<close> posted ticks all return;
  the events posted are the \<open>T\<close> ticks followed by exactly one \<^verbatim>\<open>EventChangePosition\<close>;
  afterwards the timer is the configured game length, \<^verbatim>\<open>roll\<close> is reversed, and the
  state stack is as before.
\<close>

theorem timer_swap:
  assumes "statestack (state_machine w) = ss @ [STATE_PLAY c]"
    and "STATE_PLAY c \<noteq> STATE_MENU c"
    and "timer w = Some (int T)" and "0 < T"
    and "count_list (listeners (ev_manager w)) Engine = 1"
    and "roll w = Some r" "r = [0, 1] \<or> r = [1, 0]"
    and "2 \<le> length (PLAYER_INIT_POSITION c)"
  shows "\<exists>w'. ticks c T w = Ok w' \<and>
           posted w' = posted w @ replicate T EventEveryTick @ [EventChangePosition] \<and>
           timer w' = Some (GAME_LENGTH c) \<and>
           roll w' = Some (rev r) \<and>
           state_machine w' = state_machine w"
proof -
  obtain n where T: "T = Suc n" using assms(4) by (cases T) auto
  let ?w1 = "w\<lparr>timer := Some 0,
          posted := posted w @ replicate (Suc n) EventEveryTick @ [EventChangePosition]\<rparr>"
  have t: "ticks c T w = change_position c ?w1"
    using ticks_play [of w ss c n] assms(1,2,3,5) T by simp
  obtain q0 q1 where q: "Player_init c 0 = Inr q0" "Player_init c 1 = Inr q1"
    using Player_init_ok [OF assms(8), of 0] Player_init_ok [OF assms(8), of 1] by auto
  from assms(7) show ?thesis
  proof
    assume "r = [0, 1]"
    then have "change_position c ?w1 =
        Ok (?w1\<lparr>roll := Some [1, 0], players := Some [q1, q0], timer := Some (GAME_LENGTH c)\<rparr>)"
      using assms(6) q by (simp add: change_position_ok)
    with t T \<open>r = [0, 1]\<close> show ?thesis by simp
  next
    assume "r = [1, 0]"
    then have "change_position c ?w1 =
        Ok (?w1\<lparr>roll := Some [0, 1], players := Some [q0, q1], timer := Some (GAME_LENGTH c)\<rparr>)"
      using assms(6) q by (simp add: change_position_ok)
    with t T \<open>r = [1, 0]\<close> show ?thesis by simp
  qed
qed

theorem timer_swap_witness:
  "statestack (state_machine sample_playing) = [1] @ [STATE_PLAY sample_const] \<and>
   STATE_PLAY sample_const \<noteq> STATE_MENU sample_const \<and>
   timer sample_playing = Some (int 2) \<and>
   count_list (listeners (ev_manager sample_playing)) Engine = 1 \<and>
   roll sample_playing = Some [0, 1] \<and>
   (\<exists>w'. ticks sample_const 2 sample_playing = Ok w' \<and>
      posted w' = [EventEveryTick, EventEveryTick, EventChangePosition] \<and>
      timer w' = Some 1800 \<and> roll w' = Some [1, 0] \<and>
      state_machine w' = \<lparr>statestack = [1, 2]\<rparr>)"
proof -
  have h: "statestack (state_machine sample_playing) = [1] @ [STATE_PLAY sample_const]"
    "STATE_PLAY sample_const \<noteq> STATE_MENU sample_const"
    "timer sample_playing = Some (int 2)" "(0::nat) < 2"
    "count_list (listeners (ev_manager sample_playing)) Engine = 1"
    "roll sample_playing = Some [0, 1]" "[0, 1] = [0, 1] \<or> [0, 1] = [1, 0::int]"
    "2 \<le> length (PLAYER_INIT_POSITION sample_const)"
    by (simp_all add: sample_playing_def sample_engine_def sample_const_def)
  have e: "posted sample_playing = []" "GAME_LENGTH sample_const = 1800"
    "state_machine sample_playing = \<lparr>statestack = [1, 2]\<rparr>"
    by (simp_all add: sample_playing_def sample_engine_def sample_const_def)
  from timer_swap [OF h] e
  have "\<exists>w'. ticks sample_const 2 sample_playing = Ok w' \<and>
      posted w' = [EventEveryTick, EventEveryTick, EventChangePosition] \<and>
      timer w' = Some 1800 \<and> roll w' = Some [1, 0] \<and>
      state_machine w' = \<lparr>statestack = [1, 2]\<rparr>"
    by (auto simp: numeral_2_eq_2 simp del: ticks.simps)
  with h show ?thesis by blast
qed

end
